theory Spec2Isabelle
  imports Complex_Main "HOL-Library.Word"
begin

unbundle bit_operations_syntax

section \<open>Muon candidates and tracks\<close>

text \<open>
  The two producers under \<^verbatim>\<open>plugins/\<close> work on \<^verbatim>\<open>reco::Muon\<close>, \<^verbatim>\<open>reco::CaloMuon\<close> and
  \<^verbatim>\<open>reco::Track\<close> objects, classes of the data-format packages. A class is a record of
  the state its setters write. C++ \<^verbatim>\<open>float\<close> and \<^verbatim>\<open>double\<close> quantities are idealised as
  reals: no statement below depends on rounding. An \<^verbatim>\<open>unsigned int\<close> is a 32-bit word.
\<close>

type_synonym LorentzVector = "real \<times> real \<times> real \<times> real"

type_synonym Point = "real \<times> real \<times> real"

text \<open>What the producers read of a \<^verbatim>\<open>reco::Track\<close>: the values of its accessors.\<close>

record Track =
  track_charge :: int
  track_p :: real
  track_px :: real
  track_py :: real
  track_pz :: real
  track_vx :: real
  track_vy :: real
  track_vz :: real

definition track_vertex :: "Track \<Rightarrow> Point" where
  "track_vertex t = (track_vx t, track_vy t, track_vz t)"

text \<open>A \<^verbatim>\<open>reco::TrackRef\<close> is null (\<open>None\<close>) or refers to a track.\<close>

type_synonym TrackRef = "Track option"

text \<open>
  A \<^verbatim>\<open>reco::Muon\<close>: the fields the producers set by name, the calorimeter energy
  (a \<^verbatim>\<open>reco::MuonEnergy\<close>, of type \<open>'e\<close>) and everything else the class holds
  (isolation, chamber matches, timing, ...: \<open>idInfo\<close>, of type \<open>'x\<close>).
\<close>

record ('e, 'x) Muon =
  charge :: int
  p4 :: LorentzVector
  vertex :: Point
  innerTrack :: TrackRef
  outerTrack :: TrackRef
  globalTrack :: TrackRef
  type :: "32 word"
  calEnergy :: 'e
  caloCompatibility :: real
  idInfo :: 'x

text \<open>
  A \<^verbatim>\<open>reco::CaloMuon\<close>. \<^verbatim>\<open>CaloMuonMerger::produce\<close> dereferences its track reference
  without a test (\<^verbatim>\<open>track->p()\<close>), so the record holds the track referred to.
\<close>

record 'e CaloMuon =
  calo_track :: Track
  calo_calEnergy :: 'e
  calo_caloCompatibility :: real

text \<open>
  What the producers use of \<^verbatim>\<open>DataFormats/MuonReco\<close> beyond setters and the getters
  paired with them. These declarations are not part of this package, so they are
  parameters of the model: the type flag \<^verbatim>\<open>reco::Muon::CaloMuon\<close>, the accessors
  \<^verbatim>\<open>track()\<close>, \<^verbatim>\<open>standAloneMuon()\<close> and \<^verbatim>\<open>isCaloCompatibilityValid()\<close>, and the
  constructor \<^verbatim>\<open>reco::Muon(charge, p4, vertex)\<close>.
\<close>

record ('e, 'x) MuonReco =
  CaloMuonFlag :: "32 word"
  track :: "('e, 'x) Muon \<Rightarrow> TrackRef"
  standAloneMuon :: "('e, 'x) Muon \<Rightarrow> TrackRef"
  isCaloCompatibilityValid :: "('e, 'x) Muon \<Rightarrow> bool"
  newMuon :: "int \<Rightarrow> LorentzVector \<Rightarrow> Point \<Rightarrow> ('e, 'x) Muon"

section \<open>CaloMuonMerger\<close>

text \<open>
  \<^verbatim>\<open>cms::Exception("Boh")\<close>; its message prints pt, eta (functions of the
  four-momentum) and the type of the offending muon.
\<close>

datatype Exception = Boh LorentzVector "32 word"

text \<open>
  The body of the first loop of \<^verbatim>\<open>produce\<close>, on the copy \<open>mu\<close> just pushed to the
  output: the copy with the CaloMuon bit switched on when its compatibility reaches
  \<^verbatim>\<open>minCaloCompatibility_\<close>, or the exception.
\<close>

definition flagCaloCompatible ::
  "('e, 'x) MuonReco \<Rightarrow> real \<Rightarrow> ('e, 'x) Muon \<Rightarrow> Exception + ('e, 'x) Muon" where
  "flagCaloCompatible K minCaloCompatibility mu =
     (if track K mu \<noteq> None then
        if isCaloCompatibilityValid K mu then
          if caloCompatibility mu \<ge> minCaloCompatibility
          then Inr (mu\<lparr>type := type mu OR CaloMuonFlag K\<rparr>)
          else Inr mu
        else Inl (Boh (p4 mu) (type mu))
      else Inr mu)"

text \<open>The first loop: \<open>out\<close> is the output vector so far, \<^verbatim>\<open>push_back\<close> appends.\<close>

fun copyMuons ::
  "('e, 'x) MuonReco \<Rightarrow> real \<Rightarrow> ('e, 'x) Muon list \<Rightarrow> ('e, 'x) Muon list
     \<Rightarrow> Exception + ('e, 'x) Muon list" where
  "copyMuons K minCaloCompatibility [] out = Inr out"
| "copyMuons K minCaloCompatibility (it # rest) out =
     (case flagCaloCompatible K minCaloCompatibility it of
        Inl e \<Rightarrow> Inl e
      | Inr mu \<Rightarrow> copyMuons K minCaloCompatibility rest (out @ [mu]))"

text \<open>The body of the second loop: a \<^verbatim>\<open>reco::Muon\<close> made from a \<^verbatim>\<open>reco::CaloMuon\<close>.\<close>

definition makeMuon :: "('e, 'x) MuonReco \<Rightarrow> 'e CaloMuon \<Rightarrow> ('e, 'x) Muon" where
  "makeMuon K it =
     (let trk = calo_track it;
          energy = sqrt (track_p trk * track_p trk + 0.011163691);
          p4v = (track_px trk, track_py trk, track_pz trk, energy);
          mu = newMuon K (track_charge trk) p4v (track_vertex trk)
      in mu\<lparr>calEnergy := calo_calEnergy it,
             caloCompatibility := calo_caloCompatibility it,
             innerTrack := Some trk,
             type := CaloMuonFlag K\<rparr>)"

fun copyCaloMuons ::
  "('e, 'x) MuonReco \<Rightarrow> 'e CaloMuon list \<Rightarrow> ('e, 'x) Muon list \<Rightarrow> ('e, 'x) Muon list" where
  "copyCaloMuons K [] out = out"
| "copyCaloMuons K (it # rest) out = copyCaloMuons K rest (out @ [makeMuon K it])"

text \<open>
  \<^verbatim>\<open>CaloMuonMerger::produce\<close> on the two input collections (those the event holds
  under the labels \<^verbatim>\<open>muons_\<close> and \<^verbatim>\<open>caloMuons_\<close>): \<open>Inr out\<close> is
  \<^verbatim>\<open>iEvent.put(out)\<close>; \<open>Inl e\<close> is the exception leaving \<^verbatim>\<open>produce\<close> before
  anything is put.
\<close>

definition produce ::
  "('e, 'x) MuonReco \<Rightarrow> real \<Rightarrow> ('e, 'x) Muon list \<Rightarrow> 'e CaloMuon list
     \<Rightarrow> Exception + ('e, 'x) Muon list" where
  "produce K minCaloCompatibility muons caloMuons =
     (case copyMuons K minCaloCompatibility muons [] of
        Inl e \<Rightarrow> Inl e
      | Inr out \<Rightarrow> Inr (copyCaloMuons K caloMuons out))"

section \<open>MuonsFromRefitTracksProducer: cloneAndSwitchTrack\<close>

text \<open>
  \<^verbatim>\<open>cloneAndSwitchTrack\<close> takes a reference to a muon, allocates a copy
  (\<^verbatim>\<open>muon.clone()\<close>) and writes to the copy through the returned pointer. To state
  what happens to the input muon, objects live in a store: a list of muons, an
  address being an index. A new object is placed after the existing ones.
\<close>

type_synonym addr = nat

type_synonym ('e, 'x) store = "('e, 'x) Muon list"

definition clone :: "('e, 'x) store \<Rightarrow> addr \<Rightarrow> ('e, 'x) store \<times> addr" where
  "clone h muon = (h @ [h ! muon], length h)"

definition setCharge :: "('e, 'x) store \<Rightarrow> addr \<Rightarrow> int \<Rightarrow> ('e, 'x) store" where
  "setCharge h mu q = h[mu := (h ! mu)\<lparr>charge := q\<rparr>]"

definition setP4 :: "('e, 'x) store \<Rightarrow> addr \<Rightarrow> LorentzVector \<Rightarrow> ('e, 'x) store" where
  "setP4 h mu v = h[mu := (h ! mu)\<lparr>p4 := v\<rparr>]"

definition setVertex :: "('e, 'x) store \<Rightarrow> addr \<Rightarrow> Point \<Rightarrow> ('e, 'x) store" where
  "setVertex h mu v = h[mu := (h ! mu)\<lparr>vertex := v\<rparr>]"

definition setGlobalTrack :: "('e, 'x) store \<Rightarrow> addr \<Rightarrow> TrackRef \<Rightarrow> ('e, 'x) store" where
  "setGlobalTrack h mu t = h[mu := (h ! mu)\<lparr>globalTrack := t\<rparr>]"

definition setInnerTrack :: "('e, 'x) store \<Rightarrow> addr \<Rightarrow> TrackRef \<Rightarrow> ('e, 'x) store" where
  "setInnerTrack h mu t = h[mu := (h ! mu)\<lparr>innerTrack := t\<rparr>]"

definition setOuterTrack :: "('e, 'x) store \<Rightarrow> addr \<Rightarrow> TrackRef \<Rightarrow> ('e, 'x) store" where
  "setOuterTrack h mu t = h[mu := (h ! mu)\<lparr>outerTrack := t\<rparr>]"

text \<open>
  \<^verbatim>\<open>cloneAndSwitchTrack(muon, newTrack)\<close>: \<open>muon\<close> is the address of the input muon,
  \<open>newTrack\<close> the track the reference refers to (it is dereferenced without a test;
  \<^verbatim>\<open>produce\<close> passes a reference it has tested, or a global muon's tracker track).
  The result is the store afterwards and the pointer returned.
\<close>

definition cloneAndSwitchTrack ::
  "('e, 'x) MuonReco \<Rightarrow> ('e, 'x) store \<Rightarrow> addr \<Rightarrow> Track \<Rightarrow> ('e, 'x) store \<times> addr" where
  "cloneAndSwitchTrack K h muon newTrack =
     (let muMass = 0.10566;
          tkTrack = track K (h ! muon);
          muTrack = standAloneMuon K (h ! muon);
          vtx = (track_vx newTrack, track_vy newTrack, track_vz newTrack);
          p = track_p newTrack;
          p4v = (track_px newTrack, track_py newTrack, track_pz newTrack,
                 sqrt (p * p + muMass * muMass));
          (h1, mu) = clone h muon;
          h2 = setCharge h1 mu (track_charge newTrack);
          h3 = setP4 h2 mu p4v;
          h4 = setVertex h3 mu vtx;
          h5 = setGlobalTrack h4 mu (Some newTrack);
          h6 = setInnerTrack h5 mu tkTrack;
          h7 = setOuterTrack h6 mu muTrack
      in (h7, mu))"

section \<open>DTTimingExtractor\<close>

text \<open>
  \<^verbatim>\<open>interface/DTTimingExtractor.h\<close> declares the measurement class and the
  configuration of the extractor; the bodies of \<^verbatim>\<open>fillTiming\<close> and \<^verbatim>\<open>fitT0\<close> are
  not among the sources.
\<close>

record TimeMeasurement =
  isLeft :: bool
  isPhi :: bool
  posInLayer :: real
  distIP :: real
  timeCorr :: real
  station :: int
  driftCell :: "32 word"

text \<open>
  The configuration members of \<^verbatim>\<open>class DTTimingExtractor\<close> (the segment tag, the
  debug flag and the two service pointers are left out).
\<close>

record DTTimingExtractor =
  theHitsMin :: "32 word"
  thePruneCut :: real
  useSegmentT0 :: bool
  doWireCorr :: bool
  dropTheta :: bool
  requireBothProjections :: bool
  theDTTimeOffset :: real
  theDTError :: real

subsection \<open>Projection Selector\<close>

text \<open>
  Modelled from the spec: the body of \<^verbatim>\<open>DTTimingExtractor::fillTiming\<close>, which would
  hold the selection of measurements per station, is missing from the sources. The
  three functions below are the three policies of section 4.2 of the specification,
  word for word; \<open>selectProjections\<close> evaluates them in the order given there. Each is
  a filter, so the output keeps the order of the input.
\<close>

definition stationHits :: "int \<Rightarrow> TimeMeasurement list \<Rightarrow> TimeMeasurement list" where
  "stationHits s ms = filter (\<lambda>m. station m = s) ms"

text \<open>
  Modelled from the spec: policy 1 of section 4.2 (\<^verbatim>\<open>fillTiming\<close> is missing). If
  \<^verbatim>\<open>dropTheta\<close> is set, discard all \<^verbatim>\<open>isPhi == false\<close> measurements.
\<close>

definition dropThetaHits :: "DTTimingExtractor \<Rightarrow> TimeMeasurement list \<Rightarrow> TimeMeasurement list" where
  "dropThetaHits cfg ms = (if dropTheta cfg then filter isPhi ms else ms)"

text \<open>
  Modelled from the spec: policy 2 of section 4.2 (\<^verbatim>\<open>fillTiming\<close> is missing). A
  station has both projections when it has at least one retained \<^verbatim>\<open>isPhi == true\<close>
  and at least one retained \<^verbatim>\<open>isPhi == false\<close> measurement; if
  \<^verbatim>\<open>requireBothProjections\<close> is set, the measurements of every other station are
  discarded.
\<close>

definition hasBothProjections :: "int \<Rightarrow> TimeMeasurement list \<Rightarrow> bool" where
  "hasBothProjections s ms =
     (list_ex isPhi (stationHits s ms) \<and> list_ex (\<lambda>m. \<not> isPhi m) (stationHits s ms))"

definition requireBoth :: "DTTimingExtractor \<Rightarrow> TimeMeasurement list \<Rightarrow> TimeMeasurement list" where
  "requireBoth cfg ms =
     (if requireBothProjections cfg
      then filter (\<lambda>m. hasBothProjections (station m) ms) ms
      else ms)"

text \<open>
  Modelled from the spec: policy 3 of section 4.2 (\<^verbatim>\<open>fillTiming\<close> is missing). A
  station must supply at least \<^verbatim>\<open>theHitsMin_\<close> retained measurements, summed across
  projections, to be included at all.
\<close>

definition requireHitsMin :: "DTTimingExtractor \<Rightarrow> TimeMeasurement list \<Rightarrow> TimeMeasurement list" where
  "requireHitsMin cfg ms =
     filter (\<lambda>m. unat (theHitsMin cfg) \<le> length (stationHits (station m) ms)) ms"

text \<open>
  Modelled from the spec: the Projection Selector of section 4.2 (\<^verbatim>\<open>fillTiming\<close> is
  missing), the three policies evaluated in order.
\<close>

definition selectProjections :: "DTTimingExtractor \<Rightarrow> TimeMeasurement list \<Rightarrow> TimeMeasurement list" where
  "selectProjections cfg ms = requireHitsMin cfg (requireBoth cfg (dropThetaHits cfg ms))"

subsection \<open>Iterative Pruning Controller\<close>

text \<open>
  Modelled from the spec: the value of a fit, as section 4.3 of the specification
  describes it (the body of \<^verbatim>\<open>DTTimingExtractor::fitT0\<close> is missing from the
  sources): the combined offset, its error, and the line \<open>y = a + b x\<close> of each
  drift side as a pair \<open>(a, b)\<close>.
\<close>

record Fit =
  fit_offset :: real
  fit_error :: real
  fit_left :: "real \<times> real"
  fit_right :: "real \<times> real"

text \<open>
  Modelled from the spec: the fit engine \<^verbatim>\<open>fitT0(a, b, xl, yl, xr, yr)\<close> (its body is
  missing from the sources). Section 9 of the specification leaves its arithmetic
  open, so the engine is a parameter of the controller: a function of the four
  arrays that returns a fit, or \<open>None\<close> for the fit-failure condition.
\<close>

type_synonym FitEngine = "real list \<Rightarrow> real list \<Rightarrow> real list \<Rightarrow> real list \<Rightarrow> Fit option"

text \<open>
  Modelled from the spec: step (a) of section 4.4, run the fit engine on the current
  measurements (\<^verbatim>\<open>fillTiming\<close> is missing); \<open>x = distIP\<close>, \<open>y = timeCorr\<close>, split by
  \<open>isLeft\<close> as section 4.3 says.
\<close>

definition runFit :: "FitEngine \<Rightarrow> TimeMeasurement list \<Rightarrow> Fit option" where
  "runFit fitT0 ms =
     (let lefts = filter isLeft ms; rights = filter (\<lambda>m. \<not> isLeft m) ms
      in fitT0 (map distIP lefts) (map timeCorr lefts) (map distIP rights) (map timeCorr rights))"

text \<open>
  Modelled from the spec: step (b) of section 4.4 (\<^verbatim>\<open>fillTiming\<close> is missing), the
  signed residual \<open>timeCorr - (a + b * distIP)\<close> using the side-appropriate fit.
\<close>

definition residual :: "Fit \<Rightarrow> TimeMeasurement \<Rightarrow> real" where
  "residual f m =
     (case (if isLeft m then fit_left f else fit_right f) of
        (a, b) \<Rightarrow> timeCorr m - (a + b * distIP m))"

text \<open>
  Modelled from the spec: the measurement with the largest absolute residual of step
  (c) of section 4.4 (\<^verbatim>\<open>fillTiming\<close> is missing), as its index and absolute residual.
  The scan keeps the first of equal maxima; the specification names no tie-break.
\<close>

fun worstFrom :: "real list \<Rightarrow> nat \<Rightarrow> nat \<times> real \<Rightarrow> nat \<times> real" where
  "worstFrom [] i best = best"
| "worstFrom (r # rs) i best =
     (if \<bar>r\<bar> > snd best then worstFrom rs (Suc i) (i, \<bar>r\<bar>) else worstFrom rs (Suc i) best)"

definition worst :: "real list \<Rightarrow> (nat \<times> real) option" where
  "worst rs = (case rs of [] \<Rightarrow> None | r # rest \<Rightarrow> Some (worstFrom rest 1 (0, \<bar>r\<bar>)))"

definition removeAt :: "nat \<Rightarrow> 'a list \<Rightarrow> 'a list" where
  "removeAt i xs = take i xs @ drop (Suc i) xs"

text \<open>
  Modelled from the spec: the ways the controller of section 4.4 ends
  (\<^verbatim>\<open>fillTiming\<close> is missing): no residual exceeds the cut, too few measurements
  remain to fit, or the cap on the number of rounds is reached.
\<close>

datatype StopReason = NoOutlier | TooFewMeasurements | RoundCap

datatype Round = Stop StopReason "Fit option" | Continue "TimeMeasurement list"

text \<open>
  Modelled from the spec: one round of section 4.4, steps (a) to (d)
  (\<^verbatim>\<open>fillTiming\<close> is missing). If the largest absolute residual exceeds
  \<^verbatim>\<open>thePruneCut_\<close> times the current fit error, exactly that measurement is removed
  and the controller goes on; otherwise it stops.
\<close>

definition pruneRound :: "FitEngine \<Rightarrow> real \<Rightarrow> TimeMeasurement list \<Rightarrow> Round" where
  "pruneRound fitT0 pruneCut ms =
     (case runFit fitT0 ms of
        None \<Rightarrow> Stop TooFewMeasurements None
      | Some f \<Rightarrow>
          (case worst (map (residual f) ms) of
             None \<Rightarrow> Stop NoOutlier (Some f)
           | Some (i, r) \<Rightarrow>
               if r > pruneCut * fit_error f then Continue (removeAt i ms)
               else Stop NoOutlier (Some f)))"

text \<open>
  Modelled from the spec: what the controller of section 4.4 hands on
  (\<^verbatim>\<open>fillTiming\<close> is missing): the terminal fit, the measurements retained, the
  number of rounds run and the reason it stopped.
\<close>

record PruneResult =
  pr_fit :: "Fit option"
  pr_retained :: "TimeMeasurement list"
  pr_rounds :: nat
  pr_reason :: StopReason

text \<open>
  Modelled from the spec: the loop of section 4.4 (\<^verbatim>\<open>fillTiming\<close> is missing).
  \<open>cap\<close> is the number of rounds still allowed and \<open>n\<close> the number run so far. The
  recursion is on \<open>cap\<close>, so the loop returns on every input.
\<close>

fun pruneRounds ::
  "FitEngine \<Rightarrow> real \<Rightarrow> nat \<Rightarrow> nat \<Rightarrow> TimeMeasurement list \<Rightarrow> PruneResult" where
  "pruneRounds fitT0 pruneCut 0 n ms =
     \<lparr>pr_fit = None, pr_retained = ms, pr_rounds = n, pr_reason = RoundCap\<rparr>"
| "pruneRounds fitT0 pruneCut (Suc cap) n ms =
     (case pruneRound fitT0 pruneCut ms of
        Stop why f \<Rightarrow> \<lparr>pr_fit = f, pr_retained = ms, pr_rounds = Suc n, pr_reason = why\<rparr>
      | Continue ms' \<Rightarrow> pruneRounds fitT0 pruneCut cap (Suc n) ms')"

text \<open>
  Modelled from the spec: the Iterative Pruning Controller of section 4.4
  (\<^verbatim>\<open>fillTiming\<close> is missing), its rounds capped by the initial measurement count.
\<close>

definition pruneController ::
  "DTTimingExtractor \<Rightarrow> FitEngine \<Rightarrow> TimeMeasurement list \<Rightarrow> PruneResult" where
  "pruneController cfg fitT0 ms = pruneRounds fitT0 (thePruneCut cfg) (length ms) 0 ms"

section \<open>Concrete inputs\<close>

text \<open>
  An instance of the data-format parameters, used to run the producers on explicit
  inputs: the CaloMuon bit is \<open>1 << 4\<close>, \<^verbatim>\<open>track()\<close> and \<^verbatim>\<open>standAloneMuon()\<close> read the inner
  and the outer track, a calo compatibility is valid when it is not negative, and the
  constructor leaves every other field at a default.
\<close>

definition exampleReco :: "(unit, unit) MuonReco" where
  "exampleReco =
     \<lparr>CaloMuonFlag = 16,
      track = innerTrack,
      standAloneMuon = outerTrack,
      isCaloCompatibilityValid = (\<lambda>mu. 0 \<le> caloCompatibility mu),
      newMuon = (\<lambda>q v4 vtx.
        \<lparr>charge = q, p4 = v4, vertex = vtx, innerTrack = None, outerTrack = None,
         globalTrack = None, type = 0, calEnergy = (), caloCompatibility = - 9999,
         idInfo = ()\<rparr>)\<rparr>"

definition exampleTrack :: "int \<Rightarrow> real \<Rightarrow> Track" where
  "exampleTrack q pz =
     \<lparr>track_charge = q, track_p = \<bar>pz\<bar>, track_px = 0, track_py = 0, track_pz = pz,
      track_vx = 0, track_vy = 0, track_vz = 1\<rparr>"

definition exampleMuon :: "TrackRef \<Rightarrow> real \<Rightarrow> (unit, unit) Muon" where
  "exampleMuon trk cc =
     \<lparr>charge = - 1, p4 = (0, 0, 20, 21), vertex = (0, 0, 0), innerTrack = trk,
      outerTrack = Some (exampleTrack (- 1) 19), globalTrack = Some (exampleTrack (- 1) 20),
      type = 10, calEnergy = (), caloCompatibility = cc, idInfo = ()\<rparr>"

definition exampleCaloMuon :: "unit CaloMuon" where
  "exampleCaloMuon =
     \<lparr>calo_track = exampleTrack 1 5, calo_calEnergy = (), calo_caloCompatibility = 4 / 5\<rparr>"

text \<open>A measurement on the given side, projection and station, at \<open>(distIP, timeCorr)\<close>.\<close>

definition exampleHit :: "bool \<Rightarrow> bool \<Rightarrow> int \<Rightarrow> real \<Rightarrow> real \<Rightarrow> TimeMeasurement" where
  "exampleHit l ph st x y =
     \<lparr>isLeft = l, isPhi = ph, posInLayer = 0, distIP = x, timeCorr = y, station = st,
      driftCell = 0\<rparr>"

definition exampleConfig :: DTTimingExtractor where
  "exampleConfig =
     \<lparr>theHitsMin = 3, thePruneCut = 3, useSegmentT0 = False, doWireCorr = False,
      dropTheta = False, requireBothProjections = True, theDTTimeOffset = 0,
      theDTError = 1\<rparr>"

text \<open>
  A fit engine for the concrete runs: it fails when neither side has two points and
  otherwise answers the flat line \<open>y = 0\<close> on both sides with error 1, so that a
  residual is the corrected time itself.
\<close>

definition exampleEngine :: FitEngine where
  "exampleEngine xl yl xr yr =
     (if length xl < 2 \<and> length xr < 2 then None
      else Some \<lparr>fit_offset = 0, fit_error = 1, fit_left = (0, 0), fit_right = (0, 0)\<rparr>)"

section \<open>CaloMuonMerger: what \<open>produce\<close> emits\<close>

lemma flagCaloCompatible_Inr_type:
  "flagCaloCompatible K c mu = Inr mu' \<Longrightarrow> mu'\<lparr>type := type mu\<rparr> = mu"
  by (auto simp: flagCaloCompatible_def split: if_splits)

text \<open>The type word of a copy: the input's, with the CaloMuon bit where the loop sets it.\<close>

lemma flagCaloCompatible_Inr_flag:
  "flagCaloCompatible K c mu = Inr mu' \<Longrightarrow>
   type mu' = (if track K mu \<noteq> None \<and> c \<le> caloCompatibility mu
               then type mu OR CaloMuonFlag K else type mu)"
  by (auto simp: flagCaloCompatible_def split: if_splits)

lemma flagCaloCompatible_Inr_iff:
  "(\<exists>mu'. flagCaloCompatible K c mu = Inr mu') \<longleftrightarrow>
     (track K mu \<noteq> None \<longrightarrow> isCaloCompatibilityValid K mu)"
  by (auto simp: flagCaloCompatible_def)

lemma flagCaloCompatible_Inl:
  "flagCaloCompatible K c mu = Inl e \<Longrightarrow>
   track K mu \<noteq> None \<and> \<not> isCaloCompatibilityValid K mu \<and> e = Boh (p4 mu) (type mu)"
  by (auto simp: flagCaloCompatible_def split: if_splits)

text \<open>The first loop, from any output so far: it appends one copy per input muon.\<close>

lemma copyMuons_Inr:
  "\<forall>mu\<in>set muons. track K mu \<noteq> None \<longrightarrow> isCaloCompatibilityValid K mu \<Longrightarrow>
   \<exists>r. copyMuons K c muons out = Inr (out @ r) \<and> map Inr r = map (flagCaloCompatible K c) muons"
proof (induction muons arbitrary: out)
  case Nil
  then show ?case by simp
next
  case (Cons it rest)
  from Cons.prems have "track K it \<noteq> None \<longrightarrow> isCaloCompatibilityValid K it" by simp
  then obtain mu where mu: "flagCaloCompatible K c it = Inr mu"
    using flagCaloCompatible_Inr_iff by blast
  from Cons.prems have "\<forall>mu\<in>set rest. track K mu \<noteq> None \<longrightarrow> isCaloCompatibilityValid K mu"
    by simp
  from Cons.IH [OF this, of "out @ [mu]"] obtain r where
    r: "copyMuons K c rest (out @ [mu]) = Inr ((out @ [mu]) @ r)"
       "map Inr r = map (flagCaloCompatible K c) rest" by blast
  show ?case
    by (rule exI [of _ "mu # r"]) (simp add: mu r)
qed

text \<open>
  The first loop stops at an input muon with a track and no valid compatibility, with
  the exception built from that muon.
\<close>

lemma copyMuons_Inl:
  "\<exists>mu\<in>set muons. track K mu \<noteq> None \<and> \<not> isCaloCompatibilityValid K mu \<Longrightarrow>
   \<exists>mu\<in>set muons. track K mu \<noteq> None \<and> \<not> isCaloCompatibilityValid K mu \<and>
      copyMuons K c muons out = Inl (Boh (p4 mu) (type mu))"
proof (induction muons arbitrary: out)
  case Nil
  then show ?case by simp
next
  case (Cons it rest)
  show ?case
  proof (cases "flagCaloCompatible K c it")
    case (Inl e)
    from flagCaloCompatible_Inl [OF Inl] Inl show ?thesis by simp
  next
    case (Inr mu)
    then have "track K it \<noteq> None \<longrightarrow> isCaloCompatibilityValid K it"
      using flagCaloCompatible_Inr_iff by blast
    with Cons.prems have "\<exists>mu\<in>set rest. track K mu \<noteq> None \<and> \<not> isCaloCompatibilityValid K mu"
      by auto
    from Cons.IH [OF this, of "out @ [mu]"] show ?thesis by (auto simp: Inr)
  qed
qed

lemma copyCaloMuons_append:
  "copyCaloMuons K caloMuons out = out @ map (makeMuon K) caloMuons"
  by (induction caloMuons arbitrary: out) simp_all

text \<open>The muon the second loop makes of a calo muon, field by field.\<close>

lemma makeMuon_fields:
  "makeMuon K it =
     (newMuon K (track_charge (calo_track it))
        (track_px (calo_track it), track_py (calo_track it), track_pz (calo_track it),
         sqrt (track_p (calo_track it) * track_p (calo_track it) + 0.011163691))
        (track_vx (calo_track it), track_vy (calo_track it), track_vz (calo_track it)))
     \<lparr>calEnergy := calo_calEnergy it,
      caloCompatibility := calo_caloCompatibility it,
      innerTrack := Some (calo_track it),
      type := CaloMuonFlag K\<rparr>"
  by (simp add: makeMuon_def track_vertex_def Let_def)

lemma map_Inr_nth:
  assumes "map Inr r = map f xs" "i < length xs"
  shows "f (xs ! i) = Inr (r ! i)"
proof -
  from assms(1) have len: "length r = length xs" by (metis length_map)
  have "map Inr r ! i = map f xs ! i" using assms(1) by simp
  with len assms(2) show ?thesis by simp
qed

text \<open>
  C9. When every input muon with a non-null track has a valid calo compatibility,
  \<open>produce\<close> puts one collection of \<open>size(muons) + size(caloMuons)\<close> muons. First
  come the copies of the input muons in input order: copy \<open>i\<close> is input muon \<open>i\<close> in
  every field but \<open>type\<close>, and its \<open>type\<close> is the input's, with the CaloMuon bit set
  when the muon has a track and its compatibility reaches the minimum. Then comes
  one muon per calo muon, in input order: muon \<open>length muons + j\<close> is constructed
  from the charge, momentum and vertex of calo muon \<open>j\<close>'s track, with the energy
  \<open>sqrt (p * p + 0.011163691)\<close>, and carries that calo muon's calorimeter energy and
  compatibility, its track as inner track, and the CaloMuon type. When some input
  muon has a non-null track and an invalid calo compatibility, \<open>produce\<close> ends with
  the exception built from such a muon and puts nothing.
\<close>

theorem produce_merges_or_throws:
  "((\<forall>mu\<in>set muons. track K mu \<noteq> None \<longrightarrow> isCaloCompatibilityValid K mu) \<longrightarrow>
      (\<exists>out. produce K c muons caloMuons = Inr out \<and>
         length out = length muons + length caloMuons \<and>
         map Inr (take (length muons) out) = map (flagCaloCompatible K c) muons \<and>
         (\<forall>i<length muons. (out ! i)\<lparr>type := type (muons ! i)\<rparr> = muons ! i) \<and>
         drop (length muons) out = map (makeMuon K) caloMuons \<and>
         (\<forall>i<length muons.
            type (out ! i) =
              (if track K (muons ! i) \<noteq> None \<and> c \<le> caloCompatibility (muons ! i)
               then type (muons ! i) OR CaloMuonFlag K else type (muons ! i))) \<and>
         (\<forall>j<length caloMuons.
            out ! (length muons + j) =
              (newMuon K (track_charge (calo_track (caloMuons ! j)))
                 (track_px (calo_track (caloMuons ! j)), track_py (calo_track (caloMuons ! j)),
                  track_pz (calo_track (caloMuons ! j)),
                  sqrt (track_p (calo_track (caloMuons ! j)) * track_p (calo_track (caloMuons ! j))
                        + 0.011163691))
                 (track_vx (calo_track (caloMuons ! j)), track_vy (calo_track (caloMuons ! j)),
                  track_vz (calo_track (caloMuons ! j))))
              \<lparr>calEnergy := calo_calEnergy (caloMuons ! j),
               caloCompatibility := calo_caloCompatibility (caloMuons ! j),
               innerTrack := Some (calo_track (caloMuons ! j)),
               type := CaloMuonFlag K\<rparr>))) \<and>
   ((\<exists>mu\<in>set muons. track K mu \<noteq> None \<and> \<not> isCaloCompatibilityValid K mu) \<longrightarrow>
      (\<exists>mu\<in>set muons. track K mu \<noteq> None \<and> \<not> isCaloCompatibilityValid K mu \<and>
         produce K c muons caloMuons = Inl (Boh (p4 mu) (type mu))))"
proof (intro conjI impI)
  assume ok: "\<forall>mu\<in>set muons. track K mu \<noteq> None \<longrightarrow> isCaloCompatibilityValid K mu"
  from copyMuons_Inr [OF ok, of c "[]"] obtain r where
    r: "copyMuons K c muons [] = Inr r" "map Inr r = map (flagCaloCompatible K c) muons"
    by auto
  from r(2) have len: "length r = length muons" by (metis length_map)
  let ?out = "r @ map (makeMuon K) caloMuons"
  have p: "produce K c muons caloMuons = Inr ?out"
    by (simp add: produce_def r(1) copyCaloMuons_append)
  have copy: "flagCaloCompatible K c (muons ! i) = Inr (?out ! i)" if "i < length muons" for i
  proof -
    from that len have "?out ! i = r ! i" by (simp add: nth_append)
    with map_Inr_nth [OF r(2) that] show ?thesis by simp
  qed
  have nth: "(?out ! i)\<lparr>type := type (muons ! i)\<rparr> = muons ! i" if "i < length muons" for i
    using flagCaloCompatible_Inr_type [OF copy [OF that]] .
  have flag: "type (?out ! i) =
      (if track K (muons ! i) \<noteq> None \<and> c \<le> caloCompatibility (muons ! i)
       then type (muons ! i) OR CaloMuonFlag K else type (muons ! i))"
    if "i < length muons" for i
    using flagCaloCompatible_Inr_flag [OF copy [OF that]] .
  have calo: "?out ! (length muons + j) =
      (newMuon K (track_charge (calo_track (caloMuons ! j)))
         (track_px (calo_track (caloMuons ! j)), track_py (calo_track (caloMuons ! j)),
          track_pz (calo_track (caloMuons ! j)),
          sqrt (track_p (calo_track (caloMuons ! j)) * track_p (calo_track (caloMuons ! j))
                + 0.011163691))
         (track_vx (calo_track (caloMuons ! j)), track_vy (calo_track (caloMuons ! j)),
          track_vz (calo_track (caloMuons ! j))))
      \<lparr>calEnergy := calo_calEnergy (caloMuons ! j),
       caloCompatibility := calo_caloCompatibility (caloMuons ! j),
       innerTrack := Some (calo_track (caloMuons ! j)),
       type := CaloMuonFlag K\<rparr>"
    if "j < length caloMuons" for j
  proof -
    from that len have "?out ! (length muons + j) = makeMuon K (caloMuons ! j)"
      by (simp add: nth_append)
    then show ?thesis by (simp only: makeMuon_fields)
  qed
  have a: "length ?out = length muons + length caloMuons" using len by simp
  have b: "map Inr (take (length muons) ?out) = map (flagCaloCompatible K c) muons"
    using len r(2) by simp
  have d: "drop (length muons) ?out = map (makeMuon K) caloMuons" using len by simp
  from p a b nth d flag calo
  show "\<exists>out. produce K c muons caloMuons = Inr out \<and>
         length out = length muons + length caloMuons \<and>
         map Inr (take (length muons) out) = map (flagCaloCompatible K c) muons \<and>
         (\<forall>i<length muons. (out ! i)\<lparr>type := type (muons ! i)\<rparr> = muons ! i) \<and>
         drop (length muons) out = map (makeMuon K) caloMuons \<and>
         (\<forall>i<length muons.
            type (out ! i) =
              (if track K (muons ! i) \<noteq> None \<and> c \<le> caloCompatibility (muons ! i)
               then type (muons ! i) OR CaloMuonFlag K else type (muons ! i))) \<and>
         (\<forall>j<length caloMuons.
            out ! (length muons + j) =
              (newMuon K (track_charge (calo_track (caloMuons ! j)))
                 (track_px (calo_track (caloMuons ! j)), track_py (calo_track (caloMuons ! j)),
                  track_pz (calo_track (caloMuons ! j)),
                  sqrt (track_p (calo_track (caloMuons ! j)) * track_p (calo_track (caloMuons ! j))
                        + 0.011163691))
                 (track_vx (calo_track (caloMuons ! j)), track_vy (calo_track (caloMuons ! j)),
                  track_vz (calo_track (caloMuons ! j))))
              \<lparr>calEnergy := calo_calEnergy (caloMuons ! j),
               caloCompatibility := calo_caloCompatibility (caloMuons ! j),
               innerTrack := Some (calo_track (caloMuons ! j)),
               type := CaloMuonFlag K\<rparr>)"
    by (intro exI [of _ ?out] conjI allI impI) blast+
next
  assume "\<exists>mu\<in>set muons. track K mu \<noteq> None \<and> \<not> isCaloCompatibilityValid K mu"
  from copyMuons_Inl [OF this, of c "[]"] obtain mu where
    "mu \<in> set muons" "track K mu \<noteq> None" "\<not> isCaloCompatibilityValid K mu"
    "copyMuons K c muons [] = Inl (Boh (p4 mu) (type mu))" by blast
  then show "\<exists>mu\<in>set muons. track K mu \<noteq> None \<and> \<not> isCaloCompatibilityValid K mu \<and>
         produce K c muons caloMuons = Inl (Boh (p4 mu) (type mu))"
    by (auto simp: produce_def)
qed

text \<open>
  The theorem at explicit inputs. A muon with a track and a valid compatibility, a
  muon without a track and one calo muon give three output muons: the first input
  with the CaloMuon bit added to its type, the second input unchanged, and the muon
  made of the calo muon, with its track's charge, momentum and vertex, its
  compatibility, its track as inner track and the CaloMuon type. A muon with a track
  and an invalid compatibility gives the exception that names its four-momentum and
  type.
\<close>

theorem produce_merges_or_throws_witness:
  "(\<exists>out. produce exampleReco (1 / 2)
            [exampleMuon (Some (exampleTrack (- 1) 20)) (9 / 10), exampleMuon None (- 9999)]
            [exampleCaloMuon] = Inr out \<and>
          length out = 3 \<and>
          out ! 0 = (exampleMuon (Some (exampleTrack (- 1) 20)) (9 / 10))\<lparr>type := 26\<rparr> \<and>
          out ! 1 = exampleMuon None (- 9999) \<and>
          out ! 2 = \<lparr>charge = 1, p4 = (0, 0, 5, sqrt (5 * 5 + 0.011163691)),
                     vertex = (0, 0, 1), innerTrack = Some (exampleTrack 1 5),
                     outerTrack = None, globalTrack = None, type = 16, calEnergy = (),
                     caloCompatibility = 4 / 5, idInfo = ()\<rparr>) \<and>
   produce exampleReco (1 / 2)
     [exampleMuon None (- 9999), exampleMuon (Some (exampleTrack (- 1) 20)) (- 9999)]
     [exampleCaloMuon] = Inl (Boh (0, 0, 20, 21) 10)"
proof -
  let ?m0 = "exampleMuon (Some (exampleTrack (- 1) 20)) (9 / 10)"
  let ?m1 = "exampleMuon None (- 9999)"
  let ?good = "[?m0, ?m1]"
  let ?bad = "[exampleMuon None (- 9999), exampleMuon (Some (exampleTrack (- 1) 20)) (- 9999)]"
  have good: "\<forall>mu\<in>set ?good. track exampleReco mu \<noteq> None \<longrightarrow>
                isCaloCompatibilityValid exampleReco mu"
    by (simp add: exampleReco_def exampleMuon_def)
  have bad: "\<exists>mu\<in>set ?bad. track exampleReco mu \<noteq> None \<and>
                \<not> isCaloCompatibilityValid exampleReco mu"
    by (simp add: exampleReco_def exampleMuon_def)
  from produce_merges_or_throws [of ?good exampleReco "1 / 2" "[exampleCaloMuon]"] good
  obtain out where run: "produce exampleReco (1 / 2) ?good [exampleCaloMuon] = Inr out"
    and len: "length out = length ?good + length [exampleCaloMuon]"
    and same: "\<forall>i<length ?good. (out ! i)\<lparr>type := type (?good ! i)\<rparr> = ?good ! i"
    and flag: "\<forall>i<length ?good. type (out ! i) =
        (if track exampleReco (?good ! i) \<noteq> None \<and> 1 / 2 \<le> caloCompatibility (?good ! i)
         then type (?good ! i) OR CaloMuonFlag exampleReco else type (?good ! i))"
    and calo: "\<forall>j<length [exampleCaloMuon]. out ! (length ?good + j) =
        (newMuon exampleReco (track_charge (calo_track ([exampleCaloMuon] ! j)))
           (track_px (calo_track ([exampleCaloMuon] ! j)),
            track_py (calo_track ([exampleCaloMuon] ! j)),
            track_pz (calo_track ([exampleCaloMuon] ! j)),
            sqrt (track_p (calo_track ([exampleCaloMuon] ! j))
                  * track_p (calo_track ([exampleCaloMuon] ! j)) + 0.011163691))
           (track_vx (calo_track ([exampleCaloMuon] ! j)),
            track_vy (calo_track ([exampleCaloMuon] ! j)),
            track_vz (calo_track ([exampleCaloMuon] ! j))))
        \<lparr>calEnergy := calo_calEnergy ([exampleCaloMuon] ! j),
         caloCompatibility := calo_caloCompatibility ([exampleCaloMuon] ! j),
         innerTrack := Some (calo_track ([exampleCaloMuon] ! j)),
         type := CaloMuonFlag exampleReco\<rparr>"
    by blast
  from len have l3: "length out = 3" by simp
  from same [rule_format, of 0] have s0: "(out ! 0)\<lparr>type := type ?m0\<rparr> = ?m0" by simp
  from flag [rule_format, of 0] have t0: "type (out ! 0) = 26"
    by (simp add: exampleReco_def exampleMuon_def)
  from s0 have "(out ! 0)\<lparr>type := type ?m0\<rparr>\<lparr>type := 26\<rparr> = ?m0\<lparr>type := 26\<rparr>" by simp
  with t0 have o0: "out ! 0 = ?m0\<lparr>type := 26\<rparr>" by (metis Muon.surjective Muon.update_convs(7))
  from same [rule_format, of 1] have s1: "(out ! 1)\<lparr>type := type ?m1\<rparr> = ?m1" by simp
  from flag [rule_format, of 1] have t1: "type (out ! 1) = type ?m1"
    by (simp add: exampleReco_def exampleMuon_def nth_Cons')
  from s1 t1 have o1: "out ! 1 = ?m1" by (metis Muon.surjective Muon.update_convs(7))
  from calo [rule_format, of 0] have o2: "out ! 2 = \<lparr>charge = 1, p4 = (0, 0, 5, sqrt (5 * 5 + 0.011163691)),
                     vertex = (0, 0, 1), innerTrack = Some (exampleTrack 1 5),
                     outerTrack = None, globalTrack = None, type = 16, calEnergy = (),
                     caloCompatibility = 4 / 5, idInfo = ()\<rparr>"
    by (simp add: exampleReco_def exampleCaloMuon_def exampleTrack_def numeral_2_eq_2)
  from produce_merges_or_throws [of ?bad exampleReco "1 / 2" "[exampleCaloMuon]"] bad
  obtain mu where "mu \<in> set ?bad"
    and "produce exampleReco (1 / 2) ?bad [exampleCaloMuon] = Inl (Boh (p4 mu) (type mu))"
    by blast
  then have thrown:
    "produce exampleReco (1 / 2) ?bad [exampleCaloMuon] = Inl (Boh (0, 0, 20, 21) 10)"
    by (auto simp: exampleMuon_def)
  from run l3 o0 o1 o2 thrown show ?thesis by blast
qed

text \<open>
  The same runs, evaluated from the definitions: the flagged copy followed by the
  muon made of the calo muon, and the exception raised.
\<close>

lemma produce_example:
  "produce exampleReco (1 / 2)
     [exampleMuon (Some (exampleTrack (- 1) 20)) (9 / 10), exampleMuon None (- 9999)]
     [exampleCaloMuon] =
   Inr [(exampleMuon (Some (exampleTrack (- 1) 20)) (9 / 10))\<lparr>type := 26\<rparr>,
        exampleMuon None (- 9999),
        \<lparr>charge = 1, p4 = (0, 0, 5, sqrt (5 * 5 + 0.011163691)),
         vertex = (0, 0, 1), innerTrack = Some (exampleTrack 1 5),
         outerTrack = None, globalTrack = None, type = 16, calEnergy = (),
         caloCompatibility = 4 / 5, idInfo = ()\<rparr>]"
  by (simp add: produce_def flagCaloCompatible_def makeMuon_def track_vertex_def
      exampleReco_def exampleMuon_def exampleCaloMuon_def exampleTrack_def)

lemma produce_example_throws:
  "produce exampleReco (1 / 2)
     [exampleMuon None (- 9999), exampleMuon (Some (exampleTrack (- 1) 20)) (- 9999)]
     [exampleCaloMuon] = Inl (Boh (0, 0, 20, 21) 10)"
  by (simp add: produce_def flagCaloCompatible_def exampleReco_def exampleMuon_def)

section \<open>cloneAndSwitchTrack: what is written and what is left alone\<close>

text \<open>
  C10. For a muon at a valid address and a replacement track, \<open>cloneAndSwitchTrack\<close>
  returns the address of a new object. The new object is the input muon with charge,
  four-momentum and vertex taken from the new track, the new track as global track,
  and the input muon's tracker and stand-alone tracks as inner and outer track; its
  other fields (type, calorimeter energy, calo compatibility and the rest of the
  muon-id information) are those of the input muon. Every object that existed before
  the call, the input muon among them, is unchanged.
\<close>

theorem cloneAndSwitchTrack_frame:
  assumes "muon < length h"
    and "cloneAndSwitchTrack K h muon newTrack = (h', mu)"
  shows "mu = length h \<and> length h' = Suc (length h) \<and>
     (\<forall>a<length h. h' ! a = h ! a) \<and>
     h' ! muon = h ! muon \<and>
     h' ! mu = (h ! muon)\<lparr>
        charge := track_charge newTrack,
        p4 := (track_px newTrack, track_py newTrack, track_pz newTrack,
               sqrt (track_p newTrack * track_p newTrack + 0.10566 * 0.10566)),
        vertex := (track_vx newTrack, track_vy newTrack, track_vz newTrack),
        globalTrack := Some newTrack,
        innerTrack := track K (h ! muon),
        outerTrack := standAloneMuon K (h ! muon)\<rparr> \<and>
     type (h' ! mu) = type (h ! muon) \<and>
     calEnergy (h' ! mu) = calEnergy (h ! muon) \<and>
     caloCompatibility (h' ! mu) = caloCompatibility (h ! muon) \<and>
     idInfo (h' ! mu) = idInfo (h ! muon)"
proof -
  from assms(2) have mu: "mu = length h"
    by (simp add: cloneAndSwitchTrack_def clone_def Let_def)
  from assms(2) have h': "h' = h @ [(h ! muon)\<lparr>
        charge := track_charge newTrack,
        p4 := (track_px newTrack, track_py newTrack, track_pz newTrack,
               sqrt (track_p newTrack * track_p newTrack + 0.10566 * 0.10566)),
        vertex := (track_vx newTrack, track_vy newTrack, track_vz newTrack),
        globalTrack := Some newTrack,
        innerTrack := track K (h ! muon),
        outerTrack := standAloneMuon K (h ! muon)\<rparr>]"
    by (simp add: cloneAndSwitchTrack_def clone_def Let_def setCharge_def setP4_def
        setVertex_def setGlobalTrack_def setInnerTrack_def setOuterTrack_def)
  show ?thesis
    using assms(1) by (simp add: mu h' nth_append)
qed

text \<open>
  The theorem at an explicit input: a store holding one muon, cloned onto a track of
  charge \<open>+1\<close>. The clone is at address 1 with the new charge and global track and
  the old type; the muon at address 0 is as before.
\<close>

theorem cloneAndSwitchTrack_frame_witness:
  "snd (cloneAndSwitchTrack exampleReco
          [exampleMuon (Some (exampleTrack (- 1) 18)) (9 / 10)] 0 (exampleTrack 1 30)) = 1 \<and>
   fst (cloneAndSwitchTrack exampleReco
          [exampleMuon (Some (exampleTrack (- 1) 18)) (9 / 10)] 0 (exampleTrack 1 30)) ! 0 =
     exampleMuon (Some (exampleTrack (- 1) 18)) (9 / 10) \<and>
   charge (fst (cloneAndSwitchTrack exampleReco
          [exampleMuon (Some (exampleTrack (- 1) 18)) (9 / 10)] 0 (exampleTrack 1 30)) ! 1) = 1 \<and>
   globalTrack (fst (cloneAndSwitchTrack exampleReco
          [exampleMuon (Some (exampleTrack (- 1) 18)) (9 / 10)] 0 (exampleTrack 1 30)) ! 1) =
     Some (exampleTrack 1 30) \<and>
   innerTrack (fst (cloneAndSwitchTrack exampleReco
          [exampleMuon (Some (exampleTrack (- 1) 18)) (9 / 10)] 0 (exampleTrack 1 30)) ! 1) =
     Some (exampleTrack (- 1) 18) \<and>
   type (fst (cloneAndSwitchTrack exampleReco
          [exampleMuon (Some (exampleTrack (- 1) 18)) (9 / 10)] 0 (exampleTrack 1 30)) ! 1) = 10"
proof -
  let ?h = "[exampleMuon (Some (exampleTrack (- 1) 18)) (9 / 10)]"
  let ?r = "cloneAndSwitchTrack exampleReco ?h 0 (exampleTrack 1 30)"
  have valid: "0 < length ?h" by simp
  have run: "?r = (fst ?r, snd ?r)" by simp
  note frame = cloneAndSwitchTrack_frame [OF valid run]
  from frame have mu: "snd ?r = 1" by simp
  from frame have old: "fst ?r ! 0 = ?h ! 0" by blast
  from frame have new: "fst ?r ! 1 = (?h ! 0)\<lparr>
        charge := track_charge (exampleTrack 1 30),
        p4 := (track_px (exampleTrack 1 30), track_py (exampleTrack 1 30),
               track_pz (exampleTrack 1 30),
               sqrt (track_p (exampleTrack 1 30) * track_p (exampleTrack 1 30)
                     + 0.10566 * 0.10566)),
        vertex := (track_vx (exampleTrack 1 30), track_vy (exampleTrack 1 30),
                   track_vz (exampleTrack 1 30)),
        globalTrack := Some (exampleTrack 1 30),
        innerTrack := track exampleReco (?h ! 0),
        outerTrack := standAloneMuon exampleReco (?h ! 0)\<rparr>"
    unfolding mu by blast
  show ?thesis
    unfolding mu old new
    by (simp add: exampleReco_def exampleMuon_def exampleTrack_def)
qed

section \<open>The Projection Selector in closed form\<close>

lemma stationHits_filter_station:
  "stationHits s (filter (\<lambda>m. Q (station m)) ms) = (if Q s then stationHits s ms else [])"
  by (induction ms) (auto simp: stationHits_def)

lemma hasBothProjections_iff:
  "hasBothProjections s ms \<longleftrightarrow>
     (\<exists>p\<in>set ms. station p = s \<and> isPhi p) \<and> (\<exists>t\<in>set ms. station t = s \<and> \<not> isPhi t)"
  by (auto simp: hasBothProjections_def stationHits_def list_ex_iff)

lemma requireBoth_filter:
  "requireBoth cfg ms =
     filter (\<lambda>m. requireBothProjections cfg \<longrightarrow> hasBothProjections (station m) ms) ms"
  by (simp add: requireBoth_def)

lemma dropThetaHits_filter:
  "dropThetaHits cfg ms = filter (\<lambda>m. dropTheta cfg \<longrightarrow> isPhi m) ms"
  by (simp add: dropThetaHits_def)

text \<open>
  Policy 2 keeps or discards a station as a whole, so a station that passes it has as
  many measurements after it as before.
\<close>

lemma stationHits_requireBoth:
  "stationHits s (requireBoth cfg ms) =
     (if requireBothProjections cfg \<longrightarrow> hasBothProjections s ms then stationHits s ms else [])"
  unfolding requireBoth_filter
  by (rule stationHits_filter_station
      [of s "\<lambda>s. requireBothProjections cfg \<longrightarrow> hasBothProjections s ms" ms])

lemma requireHitsMin_requireBoth:
  "requireHitsMin cfg (requireBoth cfg ms) =
     filter (\<lambda>m. (requireBothProjections cfg \<longrightarrow> hasBothProjections (station m) ms) \<and>
                 unat (theHitsMin cfg) \<le> length (stationHits (station m) (requireBoth cfg ms)))
       ms"
proof -
  have "requireHitsMin cfg (requireBoth cfg ms) =
          filter (\<lambda>m. unat (theHitsMin cfg) \<le>
                        length (stationHits (station m) (requireBoth cfg ms)))
            (filter (\<lambda>m. requireBothProjections cfg \<longrightarrow> hasBothProjections (station m) ms) ms)"
    by (simp only: requireHitsMin_def requireBoth_filter [symmetric])
  also have "\<dots> = filter (\<lambda>m.
                 (requireBothProjections cfg \<longrightarrow> hasBothProjections (station m) ms) \<and>
                 unat (theHitsMin cfg) \<le> length (stationHits (station m) (requireBoth cfg ms)))
               ms"
    by (rule filter_filter)
  finally show ?thesis .
qed

text \<open>
  C4. The selector's output is the input, in input order, cut down to the
  measurements that pass the three policies in turn: first, if \<open>dropTheta\<close> is set
  the measurement is a phi measurement; second, if \<open>requireBothProjections\<close> is set
  its station has a phi and a theta measurement among those the first policy
  retained; third, its station has at least \<open>theHitsMin\<close> measurements among those the
  first two policies retained.
\<close>

theorem selectProjections_policies:
  "selectProjections cfg ms =
     filter (\<lambda>m.
         (dropTheta cfg \<longrightarrow> isPhi m) \<and>
         (requireBothProjections cfg \<longrightarrow>
            hasBothProjections (station m) (dropThetaHits cfg ms)) \<and>
         unat (theHitsMin cfg) \<le>
            length (stationHits (station m) (requireBoth cfg (dropThetaHits cfg ms))))
       ms"
proof -
  let ?r1 = "dropThetaHits cfg ms"
  let ?P = "\<lambda>m. (requireBothProjections cfg \<longrightarrow> hasBothProjections (station m) ?r1) \<and>
                unat (theHitsMin cfg) \<le> length (stationHits (station m) (requireBoth cfg ?r1))"
  have "selectProjections cfg ms = filter ?P ?r1"
    by (simp only: selectProjections_def requireHitsMin_requireBoth)
  also have "\<dots> = filter ?P (filter (\<lambda>m. dropTheta cfg \<longrightarrow> isPhi m) ms)"
    by (subst (3) dropThetaHits_filter) (rule refl)
  also have "\<dots> = filter (\<lambda>m. (dropTheta cfg \<longrightarrow> isPhi m) \<and> ?P m) ms"
    by (rule filter_filter)
  finally show ?thesis .
qed

text \<open>
  A consequence of the order: with both \<open>dropTheta\<close> and \<open>requireBothProjections\<close>
  set, the second policy finds no theta measurement in any station and nothing is
  selected.
\<close>

lemma selectProjections_dropTheta_requireBoth:
  assumes "dropTheta cfg" "requireBothProjections cfg"
  shows "selectProjections cfg ms = []"
proof -
  have "\<not> hasBothProjections s (dropThetaHits cfg ms)" for s
    using assms(1) by (auto simp: hasBothProjections_iff dropThetaHits_def)
  then show ?thesis
    using assms(2) by (simp add: selectProjections_def requireBoth_def requireHitsMin_def)
qed

text \<open>
  The theorem at an explicit input, with \<open>requireBothProjections\<close> set and
  \<open>theHitsMin = 3\<close>: station 1 has three measurements in both projections and is
  kept, in order; station 2 has three phi measurements only and falls to the second
  policy; station 3 has both projections but two measurements and falls to the third.
\<close>

theorem selectProjections_policies_witness:
  "selectProjections exampleConfig
     [exampleHit True True 1 10 1, exampleHit True True 2 20 2, exampleHit False False 1 11 1,
      exampleHit True True 3 30 3, exampleHit False True 2 21 2, exampleHit False True 1 12 1,
      exampleHit False False 3 31 3, exampleHit True True 2 22 2] =
     [exampleHit True True 1 10 1, exampleHit False False 1 11 1, exampleHit False True 1 12 1]"
  by (simp add: selectProjections_policies exampleConfig_def exampleHit_def
      dropThetaHits_def requireBoth_def hasBothProjections_def stationHits_def)

section \<open>The Iterative Pruning Controller: rounds and termination\<close>

text \<open>
  The scan for the worst residual answers the largest absolute value of the list, at
  the index it names.
\<close>

lemma worstFrom_max:
  assumes "all = pre @ rs" "fst best < length pre"
    and "snd best = \<bar>all ! fst best\<bar>"
    and "\<forall>j<length pre. \<bar>all ! j\<bar> \<le> snd best"
  shows "fst (worstFrom rs (length pre) best) < length all \<and>
         snd (worstFrom rs (length pre) best) = \<bar>all ! fst (worstFrom rs (length pre) best)\<bar> \<and>
         (\<forall>j<length all. \<bar>all ! j\<bar> \<le> snd (worstFrom rs (length pre) best))"
  using assms
proof (induction rs arbitrary: pre best)
  case Nil
  then show ?case by simp
next
  case (Cons r rs)
  let ?pre = "pre @ [r]"
  have all: "all = ?pre @ rs" using Cons.prems(1) by simp
  have r: "all ! length pre = r" using Cons.prems(1) by simp
  show ?case
  proof (cases "\<bar>r\<bar> > snd best")
    case True
    have "\<forall>j<length ?pre. \<bar>all ! j\<bar> \<le> \<bar>r\<bar>"
      using Cons.prems(4) True r by (auto simp: less_Suc_eq)
    then have "fst (worstFrom rs (length ?pre) (length pre, \<bar>r\<bar>)) < length all \<and>
         snd (worstFrom rs (length ?pre) (length pre, \<bar>r\<bar>)) =
           \<bar>all ! fst (worstFrom rs (length ?pre) (length pre, \<bar>r\<bar>))\<bar> \<and>
         (\<forall>j<length all. \<bar>all ! j\<bar> \<le> snd (worstFrom rs (length ?pre) (length pre, \<bar>r\<bar>)))"
      using r by (intro Cons.IH [OF all]) simp_all
    with True show ?thesis by auto
  next
    case False
    have "\<forall>j<length ?pre. \<bar>all ! j\<bar> \<le> snd best"
      using Cons.prems(4) False r by (auto simp: less_Suc_eq)
    then have "fst (worstFrom rs (length ?pre) best) < length all \<and>
         snd (worstFrom rs (length ?pre) best) =
           \<bar>all ! fst (worstFrom rs (length ?pre) best)\<bar> \<and>
         (\<forall>j<length all. \<bar>all ! j\<bar> \<le> snd (worstFrom rs (length ?pre) best))"
      using Cons.prems(2,3) by (intro Cons.IH [OF all]) simp_all
    with False show ?thesis by auto
  qed
qed

lemma worst_max:
  assumes "worst rs = Some (i, r)"
  shows "i < length rs \<and> r = \<bar>rs ! i\<bar> \<and> (\<forall>j<length rs. \<bar>rs ! j\<bar> \<le> r)"
proof (cases rs)
  case Nil
  with assms show ?thesis by (simp add: worst_def)
next
  case (Cons r0 rest)
  with assms have w: "worstFrom rest (length [r0]) (0, \<bar>r0\<bar>) = (i, r)"
    by (simp add: worst_def)
  have p1: "rs = [r0] @ rest" using Cons by simp
  have p2: "fst (0::nat, \<bar>r0\<bar>) < length [r0]" by simp
  have p3: "snd (0::nat, \<bar>r0\<bar>) = \<bar>rs ! fst (0::nat, \<bar>r0\<bar>)\<bar>" using Cons by simp
  have p4: "\<forall>j<length [r0]. \<bar>rs ! j\<bar> \<le> snd (0::nat, \<bar>r0\<bar>)" using Cons by simp
  from worstFrom_max [OF p1 p2 p3 p4] show ?thesis
    unfolding w fst_conv snd_conv .
qed

lemma length_removeAt: "i < length xs \<Longrightarrow> Suc (length (removeAt i xs)) = length xs"
  by (simp add: removeAt_def)

text \<open>
  A round that goes on has removed one measurement: the one whose absolute residual
  is the largest under the round's fit, and exceeds the cut.
\<close>

lemma pruneRound_Continue:
  assumes "pruneRound fitT0 pruneCut ms = Continue ms'"
  shows "\<exists>f i. runFit fitT0 ms = Some f \<and> i < length ms \<and> ms' = removeAt i ms \<and>
           \<bar>residual f (ms ! i)\<bar> > pruneCut * fit_error f \<and>
           (\<forall>j<length ms. \<bar>residual f (ms ! j)\<bar> \<le> \<bar>residual f (ms ! i)\<bar>)"
proof -
  from assms obtain f i r where f: "runFit fitT0 ms = Some f"
    and w: "worst (map (residual f) ms) = Some (i, r)"
    and r: "r > pruneCut * fit_error f" and ms': "ms' = removeAt i ms"
    by (auto simp: pruneRound_def split: option.splits if_splits prod.splits)
  from worst_max [OF w] have i: "i < length ms" and ri: "r = \<bar>residual f (ms ! i)\<bar>"
    and mx: "\<forall>j<length ms. \<bar>residual f (ms ! j)\<bar> \<le> r"
    by auto
  from f i ms' r ri mx show ?thesis by blast
qed

lemma pruneRound_length:
  "pruneRound fitT0 pruneCut ms = Continue ms' \<Longrightarrow> Suc (length ms') = length ms"
  using pruneRound_Continue length_removeAt by blast

lemma pruneRound_Stop_reason: "pruneRound fitT0 pruneCut ms = Stop why f \<Longrightarrow> why \<noteq> RoundCap"
  by (auto simp: pruneRound_def split: option.splits if_splits prod.splits)

text \<open>
  The loop, from any state: it runs at most \<open>cap\<close> more rounds; and when the cap
  equals the number of measurements left, each round but a stopping one has removed
  one measurement, and the cap is only reached with no measurement left.
\<close>

lemma pruneRounds_invariant:
  "pr_rounds (pruneRounds fitT0 pruneCut cap n ms) \<le> n + cap \<and>
   (length ms = cap \<longrightarrow>
      length (pr_retained (pruneRounds fitT0 pruneCut cap n ms))
        + pr_rounds (pruneRounds fitT0 pruneCut cap n ms)
      = n + cap + (if pr_reason (pruneRounds fitT0 pruneCut cap n ms) = RoundCap then 0 else 1) \<and>
      (pr_reason (pruneRounds fitT0 pruneCut cap n ms) = RoundCap \<longrightarrow>
         pr_retained (pruneRounds fitT0 pruneCut cap n ms) = []))"
proof (induction cap arbitrary: n ms)
  case 0
  show ?case by simp
next
  case (Suc cap)
  show ?case
  proof (cases "pruneRound fitT0 pruneCut ms")
    case (Stop why f)
    with pruneRound_Stop_reason [OF Stop] show ?thesis by simp
  next
    case (Continue ms')
    from pruneRound_length [OF Continue] have len: "Suc (length ms') = length ms" .
    from Suc.IH [of "Suc n" ms'] Continue len show ?thesis by auto
  qed
qed

text \<open>
  C3. The controller returns on every input (it is a function defined by recursion
  on the round cap). Each round either stops or goes on with exactly one
  measurement removed, the count one less than before. The number of rounds run is
  at most the initial measurement count; the measurements retained and the rounds
  run add up to the initial count, plus one for the round that stopped; and the cap
  is reached only when no measurement is left. This holds for every fit engine.
\<close>

theorem pruneController_rounds:
  "(\<forall>ms'. pruneRound fitT0 (thePruneCut cfg) ms = Continue ms' \<longrightarrow>
      Suc (length ms') = length ms \<and> (\<exists>i<length ms. ms' = removeAt i ms)) \<and>
   pr_rounds (pruneController cfg fitT0 ms) \<le> length ms \<and>
   length (pr_retained (pruneController cfg fitT0 ms)) + pr_rounds (pruneController cfg fitT0 ms)
     = length ms + (if pr_reason (pruneController cfg fitT0 ms) = RoundCap then 0 else 1) \<and>
   (pr_reason (pruneController cfg fitT0 ms) = RoundCap \<longrightarrow>
      pr_retained (pruneController cfg fitT0 ms) = [])"
proof -
  have round: "Suc (length ms') = length ms \<and> (\<exists>i<length ms. ms' = removeAt i ms)"
    if "pruneRound fitT0 (thePruneCut cfg) ms = Continue ms'" for ms'
    using pruneRound_Continue [OF that] pruneRound_length [OF that] by blast
  from pruneRounds_invariant [of fitT0 "thePruneCut cfg" "length ms" 0 ms] round
  show ?thesis
    unfolding pruneController_def by simp
qed

text \<open>
  The theorem at an explicit input: three left-side measurements with corrected
  times 1, 2 and 60 and a cut of 3. The first round removes the third measurement,
  the second round stops: two rounds for three measurements, two retained.
\<close>

theorem pruneController_rounds_witness:
  "pruneRound exampleEngine (thePruneCut exampleConfig)
     [exampleHit True True 1 10 1, exampleHit True True 1 20 2, exampleHit True True 2 30 60] =
     Continue [exampleHit True True 1 10 1, exampleHit True True 1 20 2] \<and>
   Suc (length [exampleHit True True 1 10 1, exampleHit True True 1 20 2]) =
     length [exampleHit True True 1 10 1, exampleHit True True 1 20 2,
             exampleHit True True 2 30 60] \<and>
   pr_rounds (pruneController exampleConfig exampleEngine
     [exampleHit True True 1 10 1, exampleHit True True 1 20 2, exampleHit True True 2 30 60])
     \<le> 3"
proof -
  let ?ms = "[exampleHit True True 1 10 1, exampleHit True True 1 20 2,
              exampleHit True True 2 30 60]"
  let ?ms' = "[exampleHit True True 1 10 1, exampleHit True True 1 20 2]"
  have run: "pruneRound exampleEngine (thePruneCut exampleConfig) ?ms = Continue ?ms'"
    by (simp add: pruneRound_def runFit_def worst_def residual_def removeAt_def
        exampleEngine_def exampleConfig_def exampleHit_def)
  note inst = pruneController_rounds [of exampleEngine exampleConfig ?ms]
  from inst run have "Suc (length ?ms') = length ?ms" by blast
  moreover from inst have "pr_rounds (pruneController exampleConfig exampleEngine ?ms) \<le> 3"
    by simp
  ultimately show ?thesis using run by blast
qed

text \<open>The same run, evaluated to its end.\<close>

lemma pruneController_example:
  "pruneController exampleConfig exampleEngine
     [exampleHit True True 1 10 1, exampleHit True True 1 20 2, exampleHit True True 2 30 60] =
   \<lparr>pr_fit = Some \<lparr>fit_offset = 0, fit_error = 1, fit_left = (0, 0), fit_right = (0, 0)\<rparr>,
    pr_retained = [exampleHit True True 1 10 1, exampleHit True True 1 20 2],
    pr_rounds = 2, pr_reason = NoOutlier\<rparr>"
  by (simp add: pruneController_def pruneRound_def runFit_def worst_def residual_def
      removeAt_def exampleEngine_def exampleConfig_def exampleHit_def)

end
